theory Spec2Isabelle
  imports Complex_Main "HOL-Library.AList"
begin

section \<open>Python values and errors\<close>

text \<open>
  The program is one Python module, \<^verbatim>\<open>weight.py\<close>: a Dash callback that keeps
  a pandas DataFrame \<^verbatim>\<open>df\<close> of growth records in a module global, mirrors it
  to a CSV blob, and draws it over WHO percentile curves.  Exceptions are values of
  \<open>error\<close>; a computation that may raise returns \<open>error + 'a\<close>.
\<close>

datatype error =
    KeyError string
  | ValueError
  | AttributeError
  | TypeError
  | BlobNotFound

definition and_then :: "error + 'a \<Rightarrow> ('a \<Rightarrow> error + 'b) \<Rightarrow> error + 'b" where
  "and_then m f = (case m of Inl e \<Rightarrow> Inl e | Inr v \<Rightarrow> f v)"

subsection \<open>datetime\<close>

text \<open>
  \<^verbatim>\<open>datetime.datetime\<close>, naive (no tzinfo), with the fields of the Python class.
\<close>

record datetime =
  year :: nat
  month :: nat
  day :: nat
  hour :: nat
  minute :: nat
  second :: nat
  microsecond :: nat

definition is_leap :: "nat \<Rightarrow> bool" where
  "is_leap y = (y mod 4 = 0 \<and> (y mod 100 \<noteq> 0 \<or> y mod 400 = 0))"

definition days_in_month :: "nat \<Rightarrow> nat \<Rightarrow> nat" where
  "days_in_month y m =
     (if m = 2 \<and> is_leap y then 29
      else [31, 28, 31, 30, 31, 30, 31, 31, 30, 31, 30, 31] ! (m - 1))"

definition days_before_year :: "nat \<Rightarrow> int" where
  "days_before_year y =
     (let y1 = int y - 1 in y1 * 365 + y1 div 4 - y1 div 100 + y1 div 400)"

definition days_before_month :: "nat \<Rightarrow> nat \<Rightarrow> int" where
  "days_before_month y m =
     [0, 31, 59, 90, 120, 151, 181, 212, 243, 273, 304, 334] ! (m - 1)
       + (if m > 2 \<and> is_leap y then 1 else 0)"

text \<open>\<^verbatim>\<open>datetime.toordinal()\<close>: 0001-01-01 is day 1.\<close>

definition toordinal :: "datetime \<Rightarrow> int" where
  "toordinal d = days_before_year (year d) + days_before_month (year d) (month d) + int (day d)"

definition us_of_day :: "datetime \<Rightarrow> int" where
  "us_of_day d =
     ((int (hour d) * 60 + int (minute d)) * 60 + int (second d)) * 1000000 + int (microsecond d)"

text \<open>
  \<^verbatim>\<open>(a - b).days\<close>: the difference is a timedelta normalised so that its seconds and
  microseconds are non-negative, hence the floor division.
\<close>

definition sub_days :: "datetime \<Rightarrow> datetime \<Rightarrow> int" where
  "sub_days a b = (toordinal a - toordinal b) + (us_of_day a - us_of_day b) div 86400000000"

subsection \<open>\<^verbatim>\<open>datetime.strptime(s, '%Y-%m-%d')\<close>\<close>

text \<open>
  CPython turns the format into the regular expression
  \<^verbatim>\<open>(?P<Y>\d\d\d\d)-(?P<m>1[0-2]|0[1-9]|[1-9])-(?P<d>3[0-1]|[1-2]\d|0[1-9]|[1-9]| [1-9])\<close>,
  matches it at the start of the string, raises ValueError when the match fails or when
  text remains after it, and then builds the date, which raises ValueError for year 0
  and for a day the month does not have.  Alternatives are tried in order, with
  backtracking; the functions below return the alternatives that match, in that order.
\<close>

definition digit :: "char \<Rightarrow> nat option" where
  "digit c = (let n = (of_char c :: nat) in if 48 \<le> n \<and> n \<le> 57 then Some (n - 48) else None)"

definition digit_in :: "nat \<Rightarrow> nat \<Rightarrow> char \<Rightarrow> nat option" where
  "digit_in lo hi c =
     (case digit c of None \<Rightarrow> None | Some n \<Rightarrow> if lo \<le> n \<and> n \<le> hi then Some n else None)"

fun match_Y :: "string \<Rightarrow> (nat \<times> string) list" where
  "match_Y (a # b # c # d # rest) =
     (case (digit a, digit b, digit c, digit d) of
        (Some k3, Some k2, Some k1, Some k0) \<Rightarrow> [(k3 * 1000 + k2 * 100 + k1 * 10 + k0, rest)]
      | _ \<Rightarrow> [])"
| "match_Y _ = []"

text \<open>One alternative made of a fixed first character class and a second one.\<close>

fun two_chars :: "(char \<Rightarrow> nat option) \<Rightarrow> (char \<Rightarrow> nat option) \<Rightarrow> string \<Rightarrow> (nat \<times> string) list" where
  "two_chars p q (a # b # rest) =
     (case (p a, q b) of (Some m, Some n) \<Rightarrow> [(m * 10 + n, rest)] | _ \<Rightarrow> [])"
| "two_chars p q _ = []"

fun one_char :: "(char \<Rightarrow> nat option) \<Rightarrow> string \<Rightarrow> (nat \<times> string) list" where
  "one_char p (a # rest) = (case p a of Some n \<Rightarrow> [(n, rest)] | None \<Rightarrow> [])"
| "one_char p [] = []"

definition space :: "char \<Rightarrow> nat option" where
  "space c = (if c = CHR '' '' then Some 0 else None)"

definition match_m :: "string \<Rightarrow> (nat \<times> string) list" where
  "match_m s =
     two_chars (digit_in 1 1) (digit_in 0 2) s
     @ two_chars (digit_in 0 0) (digit_in 1 9) s
     @ one_char (digit_in 1 9) s"

definition match_d :: "string \<Rightarrow> (nat \<times> string) list" where
  "match_d s =
     two_chars (digit_in 3 3) (digit_in 0 1) s
     @ two_chars (digit_in 1 2) digit s
     @ two_chars (digit_in 0 0) (digit_in 1 9) s
     @ one_char (digit_in 1 9) s
     @ two_chars space (digit_in 1 9) s"

definition match_dash :: "string \<Rightarrow> string list" where
  "match_dash s = (case s of c # rest \<Rightarrow> if c = CHR ''-'' then [rest] else [] | [] \<Rightarrow> [])"

text \<open>All matches of the whole expression, the regex engine's first choice first.\<close>

definition match_ymd :: "string \<Rightarrow> ((nat \<times> nat \<times> nat) \<times> string) list" where
  "match_ymd s =
     concat (map (\<lambda>(y, s1).
       concat (map (\<lambda>s2.
         concat (map (\<lambda>(m, s3).
           concat (map (\<lambda>s4.
             map (\<lambda>(d, s5). ((y, m, d), s5)) (match_d s4))
           (match_dash s3)))
         (match_m s2)))
       (match_dash s1)))
     (match_Y s))"

definition strptime :: "string \<Rightarrow> error + datetime" where
  "strptime s =
     (case match_ymd s of
        [] \<Rightarrow> Inl ValueError
      | ((y, m, d), rest) # _ \<Rightarrow>
          if rest \<noteq> [] then Inl ValueError
          else if y < 1 \<or> d > days_in_month y m then Inl ValueError
          else Inr \<lparr>year = y, month = m, day = d,
                     hour = 0, minute = 0, second = 0, microsecond = 0\<rparr>)"

subsection \<open>\<^verbatim>\<open>date.isoformat()\<close>\<close>

text \<open>
  The date pickers hold a date as \<^verbatim>\<open>YYYY-MM-DD\<close>, the text \<^verbatim>\<open>date.isoformat()\<close>
  gives for a date of the years 1 to 9999.
\<close>

definition digit_char :: "nat \<Rightarrow> char" where
  "digit_char n = char_of (48 + n)"

definition isoformat :: "datetime \<Rightarrow> string" where
  "isoformat t =
     [digit_char (year t div 1000), digit_char (year t div 100 mod 10),
      digit_char (year t div 10 mod 10), digit_char (year t mod 10), CHR ''-'',
      digit_char (month t div 10), digit_char (month t mod 10), CHR ''-'',
      digit_char (day t div 10), digit_char (day t mod 10)]"

definition valid_date :: "datetime \<Rightarrow> bool" where
  "valid_date t =
     (1 \<le> year t \<and> year t \<le> 9999 \<and> 1 \<le> month t \<and> month t \<le> 12
      \<and> 1 \<le> day t \<and> day t \<le> days_in_month (year t) (month t)
      \<and> hour t = 0 \<and> minute t = 0 \<and> second t = 0 \<and> microsecond t = 0)"

section \<open>pandas frames\<close>

text \<open>
  A cell of a frame or of a table row.  \<open>Missing\<close> stands for pandas' missing value
  (\<^verbatim>\<open>None\<close>, \<^verbatim>\<open>NaN\<close>, \<^verbatim>\<open>NaT\<close>); \<open>'f\<close> is the type of Python floats, about which
  nothing is assumed.
\<close>

datatype 'f cell = Missing | PyStr string | PyInt int | PyFloat 'f | Timestamp datetime

text \<open>
  A DataFrame with the default integer index: the number of rows and the columns in
  order, each a list of cells.  A row of \<^verbatim>\<open>to_dict('records')\<close> and of the table's
  \<^verbatim>\<open>data\<close> is a dict from column names to cells, in key order.
\<close>

record 'f frame =
  nrows :: nat
  cols :: "(string \<times> 'f cell list) list"

type_synonym 'f row = "(string \<times> 'f cell) list"

definition wf_frame :: "'f frame \<Rightarrow> bool" where
  "wf_frame fr = (distinct (map fst (cols fr)) \<and> list_all (\<lambda>(n, xs). length xs = nrows fr) (cols fr))"

text \<open>\<^verbatim>\<open>df[name]\<close>\<close>

definition getitem :: "'f frame \<Rightarrow> string \<Rightarrow> error + 'f cell list" where
  "getitem fr n = (case map_of (cols fr) n of None \<Rightarrow> Inl (KeyError n) | Some xs \<Rightarrow> Inr xs)"

text \<open>\<^verbatim>\<open>df[name] = values\<close>: replaces the column in place, or adds it last.\<close>

definition setitem :: "'f frame \<Rightarrow> string \<Rightarrow> 'f cell list \<Rightarrow> 'f frame" where
  "setitem fr n xs = fr\<lparr>cols := AList.update n xs (cols fr)\<rparr>"

text \<open>\<^verbatim>\<open>pd.DataFrame(columns=[...])\<close>\<close>

definition DataFrame_columns :: "string list \<Rightarrow> 'f frame" where
  "DataFrame_columns ns = \<lparr>nrows = 0, cols = map (\<lambda>n. (n, [])) ns\<rparr>"

text \<open>\<^verbatim>\<open>pd.DataFrame({name: [values], ...})\<close>; columns of unequal length raise.\<close>

definition DataFrame_dict :: "(string \<times> 'f cell list) list \<Rightarrow> error + 'f frame" where
  "DataFrame_dict d =
     (case d of
        [] \<Rightarrow> Inr \<lparr>nrows = 0, cols = []\<rparr>
      | (n, xs) # rest \<Rightarrow>
          if list_all (\<lambda>(n', ys). length ys = length xs) rest
          then Inr \<lparr>nrows = length xs, cols = d\<rparr>
          else Inl ValueError)"

text \<open>The elements of a list in the order of their first occurrence.\<close>

definition first_seen :: "'a list \<Rightarrow> 'a list" where
  "first_seen xs = rev (remdups (rev xs))"

definition row_get :: "'f row \<Rightarrow> string \<Rightarrow> 'f cell" where
  "row_get r n = (case map_of r n of None \<Rightarrow> Missing | Some v \<Rightarrow> v)"

text \<open>
  \<^verbatim>\<open>pd.DataFrame(rows)\<close> for a list of dicts: the columns are the keys in the order
  they first occur, a row without a key has a missing value there, and no row at all
  gives a frame with no column.
\<close>

definition DataFrame_records :: "'f row list \<Rightarrow> 'f frame" where
  "DataFrame_records rows =
     \<lparr>nrows = length rows,
      cols = map (\<lambda>n. (n, map (\<lambda>r. row_get r n) rows)) (first_seen (concat (map (map fst) rows)))\<rparr>"

text \<open>\<^verbatim>\<open>df.to_dict('records')\<close>\<close>

definition to_dict_records :: "'f frame \<Rightarrow> 'f row list" where
  "to_dict_records fr = map (\<lambda>i. map (\<lambda>(n, xs). (n, xs ! i)) (cols fr)) [0..<nrows fr]"

text \<open>\<^verbatim>\<open>df.empty\<close>: some axis has length 0.\<close>

definition is_empty :: "'f frame \<Rightarrow> bool" where
  "is_empty fr = (nrows fr = 0 \<or> cols fr = [])"

text \<open>
  \<^verbatim>\<open>pd.concat([a, b], ignore_index=True)\<close>: the columns of \<open>a\<close>, then those of
  \<open>b\<close> that \<open>a\<close> lacks; a frame that lacks a column contributes missing values.
\<close>

definition column_or_missing :: "'f frame \<Rightarrow> string \<Rightarrow> 'f cell list" where
  "column_or_missing fr n =
     (case map_of (cols fr) n of None \<Rightarrow> replicate (nrows fr) Missing | Some xs \<Rightarrow> xs)"

definition concat_frames :: "'f frame \<Rightarrow> 'f frame \<Rightarrow> 'f frame" where
  "concat_frames a b =
     \<lparr>nrows = nrows a + nrows b,
      cols = map (\<lambda>n. (n, column_or_missing a n @ column_or_missing b n))
               (map fst (cols a) @ filter (\<lambda>n. n \<notin> set (map fst (cols a))) (map fst (cols b)))\<rparr>"

subsection \<open>Library functions taken as parameters\<close>

text \<open>
  What pandas does with text is not part of this program, and nothing below depends
  on how it is done: the CSV writer and reader, the conversion of one string or number
  to a timestamp, the conversion of a string to a float and the product of a float and
  an integer are the fields of a record the program's functions take.
\<close>

record 'f pandas =
  to_csv :: "'f frame \<Rightarrow> string"
  read_csv :: "string \<Rightarrow> char \<Rightarrow> error + 'f frame"
  scalar_to_datetime :: "'f cell \<Rightarrow> datetime option"
  float_of_str :: "string \<Rightarrow> 'f option"
  float_times :: "'f \<Rightarrow> int \<Rightarrow> 'f"

text \<open>
  \<^verbatim>\<open>pd.to_datetime(series)\<close>: a timestamp and a missing value stay as they are, any
  other cell is converted, and one cell that cannot be converted raises.
\<close>

definition to_datetime_cell :: "'f pandas \<Rightarrow> 'f cell \<Rightarrow> error + 'f cell" where
  "to_datetime_cell L c =
     (case c of
        Missing \<Rightarrow> Inr Missing
      | Timestamp t \<Rightarrow> Inr (Timestamp t)
      | _ \<Rightarrow> (case scalar_to_datetime L c of None \<Rightarrow> Inl ValueError | Some t \<Rightarrow> Inr (Timestamp t)))"

fun to_datetime :: "'f pandas \<Rightarrow> 'f cell list \<Rightarrow> error + 'f cell list" where
  "to_datetime L [] = Inr []"
| "to_datetime L (c # cs) =
     (case to_datetime_cell L c of
        Inl e \<Rightarrow> Inl e
      | Inr v \<Rightarrow> (case to_datetime L cs of Inl e \<Rightarrow> Inl e | Inr vs \<Rightarrow> Inr (v # vs)))"

section \<open>Blob storage\<close>

text \<open>
  The program's state: the module global \<^verbatim>\<open>df\<close> and the container's blobs by
  name.  The storage calls themselves are taken to succeed.
\<close>

record 'f state =
  df :: "'f frame"
  blobs :: "string \<rightharpoonup> string"

definition baby_growth_blob :: string where
  "baby_growth_blob = ''baby_growth_data.csv''"

definition who_data_blob :: string where
  "who_data_blob = ''tab_wfa_girls_p_0_13.csv''"

definition read_csv_from_blob :: "'f pandas \<Rightarrow> (string \<rightharpoonup> string) \<Rightarrow> string \<Rightarrow> char \<Rightarrow> error + 'f frame" where
  "read_csv_from_blob L bs blob_name sep =
     (case bs blob_name of None \<Rightarrow> Inl BlobNotFound | Some text \<Rightarrow> read_csv L text sep)"

definition write_csv_to_blob :: "'f pandas \<Rightarrow> 'f frame \<Rightarrow> string \<Rightarrow> 'f state \<Rightarrow> 'f state" where
  "write_csv_to_blob L fr blob_name st = st\<lparr>blobs := (blobs st)(blob_name \<mapsto> to_csv L fr)\<rparr>"

text \<open>
  Lines 40 to 44: the store at start-up.  The bare \<^verbatim>\<open>except\<close> turns every failure
  into the empty frame with the three columns.
\<close>

definition load_df :: "'f pandas \<Rightarrow> (string \<rightharpoonup> string) \<Rightarrow> 'f frame" where
  "load_df L bs =
     (case and_then (read_csv_from_blob L bs baby_growth_blob (CHR '',''))
             (\<lambda>fr. and_then (getitem fr ''Date'')
               (\<lambda>xs. and_then (to_datetime L xs)
                 (\<lambda>ys. Inr (setitem fr ''Date'' ys)))) of
        Inl e \<Rightarrow> DataFrame_columns [''Date'', ''Age_Days'', ''Weight_kg'']
      | Inr fr \<Rightarrow> fr)"

section \<open>Reference curves\<close>






text \<open>The module globals \<^verbatim>\<open>percentiles\<close> (a dict, in insertion order) and \<^verbatim>\<open>days\<close>.\<close>

record 'f curves =
  percentiles :: "(string \<times> 'f cell list) list"
  days :: "'f cell list"



section \<open>The chart\<close>

text \<open>
  A \<^verbatim>\<open>go.Scatter\<close> trace with the attributes the program sets; an attribute it
  does not set is \<open>None\<close>.
\<close>

record 'f trace =
  tr_x :: "'f cell list"
  tr_y :: "'f cell list"
  tr_fill :: "string option"
  tr_fillcolor :: "string option"
  tr_line_color :: "string option"
  tr_line_width :: "nat option"
  tr_hoverinfo :: "string option"
  tr_showlegend :: "bool option"
  tr_mode :: "string option"
  tr_name :: "string option"
  tr_marker_size :: "nat option"

record layout =
  title :: string
  xaxis_title :: string
  yaxis_title :: string
  legend_y :: real
  legend_traceorder :: string
  legend_font_size :: nat
  hovermode :: string

record 'f figure =
  fig_data :: "'f trace list"
  fig_layout :: "layout option"

definition Scatter :: "'f cell list \<Rightarrow> 'f cell list \<Rightarrow> 'f trace" where
  "Scatter xs ys =
     \<lparr>tr_x = xs, tr_y = ys, tr_fill = None, tr_fillcolor = None, tr_line_color = None,
      tr_line_width = None, tr_hoverinfo = None, tr_showlegend = None, tr_mode = None,
      tr_name = None, tr_marker_size = None\<rparr>"

definition add_trace :: "'f trace \<Rightarrow> 'f figure \<Rightarrow> 'f figure" where
  "add_trace t fig = fig\<lparr>fig_data := fig_data fig @ [t]\<rparr>"

text \<open>\<^verbatim>\<open>percentiles[key]\<close>\<close>

definition percentile :: "'f curves \<Rightarrow> string \<Rightarrow> error + 'f cell list" where
  "percentile rc k = (case map_of (percentiles rc) k of None \<Rightarrow> Inl (KeyError k) | Some w \<Rightarrow> Inr w)"

definition band :: "'f curves \<Rightarrow> string \<Rightarrow> string \<Rightarrow> string \<Rightarrow> error + 'f trace" where
  "band rc upper lower colour =
     and_then (percentile rc upper) (\<lambda>hi.
     and_then (percentile rc lower) (\<lambda>lo.
       Inr ((Scatter (days rc @ rev (days rc)) (hi @ rev lo))
             \<lparr>tr_fill := Some ''toself'',
              tr_fillcolor := Some colour,
              tr_line_color := Some ''rgba(255,255,255,0)'',
              tr_hoverinfo := Some ''skip'',
              tr_showlegend := Some False\<rparr>)))"

definition percentile_line :: "'f curves \<Rightarrow> string \<times> 'f cell list \<Rightarrow> 'f trace" where
  "percentile_line rc kw =
     (Scatter (days rc) (snd kw))
       \<lparr>tr_mode := Some ''lines'',
        tr_name := Some (fst kw @ '' Percentile''),
        tr_line_color := Some ''rgba(0,0,0,0.5)'',
        tr_line_width := Some 1\<rparr>"

definition growth_trace :: "'f frame \<Rightarrow> error + 'f trace" where
  "growth_trace fr =
     and_then (getitem fr ''Age_Days'') (\<lambda>xs.
     and_then (getitem fr ''Weight_kg'') (\<lambda>ys.
       Inr ((Scatter xs ys)
             \<lparr>tr_mode := Some ''lines+markers'',
              tr_line_color := Some ''red'',
              tr_line_width := Some 2,
              tr_marker_size := Some 6,
              tr_name := Some ''Baby's Growth''\<rparr>)))"

definition chart_layout :: layout where
  "chart_layout =
     \<lparr>title = ''Baby Growth Chart for Female Infants (WHO Standards)'',
      xaxis_title = ''Age (days)'',
      yaxis_title = ''Weight (kg)'',
      legend_y = 0.5,
      legend_traceorder = ''reversed'',
      legend_font_size = 16,
      hovermode = ''x unified''\<rparr>"

text \<open>\<^verbatim>\<open>update_chart()\<close>, lines 130 to 183, with the globals it reads as arguments.\<close>

definition update_chart :: "'f curves \<Rightarrow> 'f frame \<Rightarrow> error + 'f figure" where
  "update_chart rc fr =
     (let fig0 = \<lparr>fig_data = [], fig_layout = None\<rparr> in
      and_then (band rc ''95th'' ''5th'' ''rgba(200,200,200,0.3)'') (\<lambda>b1.
      let fig1 = add_trace b1 fig0 in
      and_then (band rc ''90th'' ''10th'' ''rgba(150,150,150,0.3)'') (\<lambda>b2.
      let fig2 = add_trace b2 fig1;
          fig3 = fold (\<lambda>kw. add_trace (percentile_line rc kw)) (percentiles rc) fig2 in
      and_then (if \<not> is_empty fr
                then and_then (growth_trace fr) (\<lambda>g. Inr (add_trace g fig3))
                else Inr fig3) (\<lambda>fig4.
        Inr (fig4\<lparr>fig_layout := Some chart_layout\<rparr>)))))"

section \<open>The update handler\<close>

text \<open>
  One callback invocation: the property that fired (\<^verbatim>\<open>ctx.triggered[0]['prop_id']\<close>,
  such as \<^verbatim>\<open>add-button.n_clicks\<close>, or \<^verbatim>\<open>.\<close> on the first render) and the six
  arguments.  The date pickers give a string or \<^verbatim>\<open>None\<close>; the number input gives
  an int, a float or \<^verbatim>\<open>None\<close>.
\<close>

datatype 'f number = JInt int | JFloat 'f

definition cell_of_number :: "'f number \<Rightarrow> 'f cell" where
  "cell_of_number w = (case w of JInt n \<Rightarrow> PyInt n | JFloat v \<Rightarrow> PyFloat v)"

record 'f event =
  prop_id :: string
  add_clicks :: nat
  save_clicks :: nat
  table_data :: "'f row list"
  dob :: "string option"
  date :: "string option"
  weight :: "'f number option"

text \<open>\<^verbatim>\<open>prop_id.split('.')[0]\<close>: the text before the first dot.\<close>

definition trigger_id :: "'f event \<Rightarrow> string" where
  "trigger_id ev = takeWhile (\<lambda>c. c \<noteq> CHR ''.'') (prop_id ev)"

text \<open>
  The condition \<^verbatim>\<open>dob and date and weight is not None\<close>: a date that is
  \<^verbatim>\<open>None\<close> or the empty string is falsy; the weight is only compared with
  \<^verbatim>\<open>None\<close>.  The result holds the three values when the condition is true.
\<close>

definition add_inputs :: "'f event \<Rightarrow> (string \<times> string \<times> 'f number) option" where
  "add_inputs ev =
     (case dob ev of
        None \<Rightarrow> None
      | Some d \<Rightarrow> if d = [] then None else
          (case date ev of
             None \<Rightarrow> None
           | Some m \<Rightarrow> if m = [] then None else
               (case weight ev of None \<Rightarrow> None | Some w \<Rightarrow> Some (d, m, w))))"

text \<open>Lines 127 and 128: the chart and the table rows from the store as it is now.\<close>

definition render :: "'f curves \<Rightarrow> string \<Rightarrow> 'f state \<Rightarrow> error + (string \<times> 'f figure \<times> 'f row list)" where
  "render rc message st =
     and_then (update_chart rc (df st)) (\<lambda>fig. Inr (message, fig, to_dict_records (df st)))"

text \<open>
  \<^verbatim>\<open>update_data_and_chart\<close>, lines 105 to 128.  The global \<^verbatim>\<open>df\<close> keeps what was
  assigned to it when a later statement raises, so the state is returned beside the
  result.
\<close>

definition update_data_and_chart ::
  "'f pandas \<Rightarrow> 'f curves \<Rightarrow> 'f event \<Rightarrow> 'f state
     \<Rightarrow> 'f state \<times> (error + (string \<times> 'f figure \<times> 'f row list))" where
  "update_data_and_chart L rc ev st =
     (case (if trigger_id ev = ''add-button'' then add_inputs ev else None) of
        Some (d, m, w) \<Rightarrow>
          (case strptime d of
             Inl e \<Rightarrow> (st, Inl e)
           | Inr dob' \<Rightarrow>
          (case strptime m of
             Inl e \<Rightarrow> (st, Inl e)
           | Inr measurement_date \<Rightarrow>
          (let age_days = sub_days measurement_date dob' in
           case DataFrame_dict [(''Date'', [Timestamp measurement_date]),
                                (''Age_Days'', [PyInt age_days]),
                                (''Weight_kg'', [cell_of_number w])] of
             Inl e \<Rightarrow> (st, Inl e)
           | Inr new_record \<Rightarrow>
               (let st1 = st\<lparr>df := concat_frames (df st) new_record\<rparr>;
                    st2 = write_csv_to_blob L (df st1) baby_growth_blob st1
                in (st2, render rc ''Record added successfully!'' st2)))))
      | None \<Rightarrow>
          if trigger_id ev = ''save-button'' \<or> trigger_id ev = ''data-table'' then
            (let st1 = st\<lparr>df := DataFrame_records (table_data ev)\<rparr> in
             case getitem (df st1) ''Date'' of
               Inl e \<Rightarrow> (st1, Inl e)
             | Inr xs \<Rightarrow>
            (case to_datetime L xs of
               Inl e \<Rightarrow> (st1, Inl e)
             | Inr ys \<Rightarrow>
                 (let st2 = st1\<lparr>df := setitem (df st1) ''Date'' ys\<rparr>;
                      st3 = write_csv_to_blob L (df st2) baby_growth_blob st2
                  in (st3, render rc ''Changes saved successfully!'' st3))))
          else (st, render rc ''No changes made.'' st))"

section \<open>Stores the claims speak about\<close>

text \<open>
  The chart reads the Age_Days and Weight_kg columns of a store that is not empty; a
  store it can draw is empty or has both.
\<close>

definition chartable :: "'f frame \<Rightarrow> bool" where
  "chartable fr =
     (is_empty fr \<or> (map_of (cols fr) ''Age_Days'' \<noteq> None \<and> map_of (cols fr) ''Weight_kg'' \<noteq> None))"


text \<open>
  What start-up, an add and a successful replace all leave in the Date column:
  timestamps and missing values only.
\<close>

definition is_datetime :: "'f cell \<Rightarrow> bool" where
  "is_datetime c = (case c of Missing \<Rightarrow> True | Timestamp t \<Rightarrow> True | _ \<Rightarrow> False)"


text \<open>
  What every event leaves: a store whose Date column, converted once more, would not
  change.  Either there is no such column, or the conversion returns it as it is (it
  holds timestamps and missing values), or the conversion raises (the column came
  from a replace that raised for that very reason).
\<close>

definition date_settled :: "'f pandas \<Rightarrow> 'f frame \<Rightarrow> bool" where
  "date_settled L fr =
     (case getitem fr ''Date'' of
        Inl e \<Rightarrow> True
      | Inr xs \<Rightarrow> (case to_datetime L xs of Inl e \<Rightarrow> True | Inr ys \<Rightarrow> ys = xs))"

section \<open>A small instance for the examples\<close>

text \<open>
  The examples below run the program on a three-week reference table and a store of
  one record.  Their library parameters are: a CSV writer that writes the header line
  only, a reader that always fails, a timestamp conversion that accepts ISO dates, a
  float parser for one digit, a point and one digit, and floats taken as reals.
\<close>

fun join :: "string \<Rightarrow> string list \<Rightarrow> string" where
  "join sep [] = []"
| "join sep [s] = s"
| "join sep (s # t # ss) = s @ sep @ join sep (t # ss)"

definition example_pandas :: "real pandas" where
  "example_pandas =
     \<lparr>to_csv = (\<lambda>fr. join '','' (map fst (cols fr))),
      read_csv = (\<lambda>text sep. Inl ValueError),
      scalar_to_datetime =
        (\<lambda>c. case c of
               PyStr s \<Rightarrow> (case strptime s of Inl e \<Rightarrow> None | Inr t \<Rightarrow> Some t)
             | _ \<Rightarrow> None),
      float_of_str =
        (\<lambda>s. case s of
               [a, p, b] \<Rightarrow>
                 (case (digit a, digit b) of
                    (Some m, Some n) \<Rightarrow> if p = CHR ''.'' then Some (real m + real n / 10) else None
                  | _ \<Rightarrow> None)
             | _ \<Rightarrow> None),
      float_times = (\<lambda>v k. v * real_of_int k)\<rparr>"


definition example_curves :: "real curves" where
  "example_curves =
     \<lparr>percentiles =
        [(''5th'', [PyFloat 2.5, PyFloat 2.8, PyFloat 3.1]),
         (''10th'', [PyFloat 2.7, PyFloat 2.9, PyFloat 3.2]),
         (''50th'', [PyFloat 3.2, PyFloat 3.3, PyFloat 3.6]),
         (''90th'', [PyFloat 3.9, PyFloat 3.9, PyFloat 4.2]),
         (''95th'', [PyFloat 4.0, PyFloat 4.1, Missing])],
      days = [PyInt 0, PyInt 7, PyInt 14]\<rparr>"

definition ymd :: "nat \<Rightarrow> nat \<Rightarrow> nat \<Rightarrow> datetime" where
  "ymd y m d = \<lparr>year = y, month = m, day = d, hour = 0, minute = 0, second = 0, microsecond = 0\<rparr>"

definition example_state :: "real state" where
  "example_state =
     \<lparr>df = \<lparr>nrows = 1,
             cols = [(''Date'', [Timestamp (ymd 2024 1 8)]),
                     (''Age_Days'', [PyInt 7]),
                     (''Weight_kg'', [PyFloat 3.9])]\<rparr>,
      blobs = Map.empty\<rparr>"

definition example_event :: "real event" where
  "example_event =
     \<lparr>prop_id = ''.'', add_clicks = 0, save_clicks = 0, table_data = [],
      dob = Some ''2024-01-01'', date = Some ''2024-01-15'', weight = Some (JFloat 4.2)\<rparr>"


text \<open>The user deleted every row of the table; then an add with the example's inputs.\<close>

definition delete_all_event :: "real event" where
  "delete_all_event = example_event\<lparr>prop_id := ''data-table.data'', table_data := []\<rparr>"

definition add_event :: "real event" where
  "add_event = example_event\<lparr>prop_id := ''add-button.n_clicks''\<rparr>"



section \<open>The loader as the specification words it\<close>





section \<open>Dates\<close>

lemma strptime_midnight:
  "strptime s = Inr t \<Longrightarrow> us_of_day t = 0"
  by (auto simp: strptime_def us_of_day_def split: list.splits if_splits prod.splits)

lemma sub_days_strptime:
  assumes "strptime a = Inr ta" and "strptime b = Inr tb"
  shows "sub_days ta tb = toordinal ta - toordinal tb"
  using strptime_midnight [OF assms(1)] strptime_midnight [OF assms(2)]
  by (simp add: sub_days_def)

lemma strptime_nonempty: "strptime s = Inr t \<Longrightarrow> s \<noteq> []"
  by (auto simp: strptime_def match_ymd_def)

lemma digit_digit_char: "n < 10 \<Longrightarrow> digit (digit_char n) = Some n"
  by (simp add: digit_def digit_char_def Let_def)

lemma digit_char_not_dash: "n < 10 \<Longrightarrow> digit_char n \<noteq> CHR ''-''"
  by (auto simp: digit_char_def dest!: arg_cong [where f = "of_char :: char \<Rightarrow> nat"])

lemma digit_char_not_space: "n < 10 \<Longrightarrow> space (digit_char n) = None"
  by (auto simp: space_def digit_char_def dest!: arg_cong [where f = "of_char :: char \<Rightarrow> nat"])

lemma digit_in_digit_char:
  "n < 10 \<Longrightarrow> digit_in lo hi (digit_char n) = (if lo \<le> n \<and> n \<le> hi then Some n else None)"
  by (simp add: digit_in_def digit_digit_char)

lemma match_Y_four:
  assumes "y \<le> 9999"
  shows "match_Y (digit_char (y div 1000) # digit_char (y div 100 mod 10) #
                  digit_char (y div 10 mod 10) # digit_char (y mod 10) # rest) = [(y, rest)]"
proof -
  have k: "y div 1000 < 10"
    using assms by simp
  have a: "y = y div 10 * 10 + y mod 10"
    by simp
  have "y div 100 = y div 10 div 10" and "y div 1000 = y div 100 div 10"
    by (simp_all add: div_mult2_eq [symmetric])
  then have b: "y div 10 = y div 100 * 10 + y div 10 mod 10"
    and c: "y div 100 = y div 1000 * 10 + y div 100 mod 10"
    by simp_all
  have "y div 1000 * 1000 + y div 100 mod 10 * 100 + y div 10 mod 10 * 10 + y mod 10 = y"
    using a b c by linarith
  then show ?thesis
    using k by (simp add: digit_digit_char)
qed

lemma days_in_month_le:
  assumes "1 \<le> m" "m \<le> 12"
  shows "days_in_month y m \<le> 31"
proof -
  have "\<forall>x \<in> set [31, 28, 31, 30, 31, 30, 31, 31, 30, 31, 30, 31 :: nat]. x \<le> 31"
    by simp
  moreover have "m - 1 < length [31, 28, 31, 30, 31, 30, 31, 31, 30, 31, 30, 31 :: nat]"
    using assms by simp
  ultimately have "[31, 28, 31, 30, 31, 30, 31, 31, 30, 31, 30, 31 :: nat] ! (m - 1) \<le> 31"
    using nth_mem by blast
  then show ?thesis
    by (simp add: days_in_month_def)
qed

lemma match_m_two:
  assumes "1 \<le> m" "m \<le> 12"
  shows "\<exists>more. match_m (digit_char (m div 10) # digit_char (m mod 10) # rest) = (m, rest) # more"
proof -
  have tens: "m div 10 = 0 \<or> m div 10 = 1"
    using assms by arith
  have units: "m mod 10 < 10"
    by simp
  from tens show ?thesis
  proof (elim disjE)
    assume t: "m div 10 = 0"
    then have "m mod 10 = m"
      by simp
    then show ?thesis
      using assms units by (simp add: match_m_def t digit_in_digit_char)
  next
    assume t: "m div 10 = 1"
    then have "m = 10 + m mod 10" "m mod 10 \<le> 2"
      using assms by arith+
    then show ?thesis
      using units by (simp add: match_m_def t digit_in_digit_char)
  qed
qed

lemma match_d_two:
  assumes "1 \<le> d" "d \<le> 31"
  shows "\<exists>more. match_d [digit_char (d div 10), digit_char (d mod 10)] = (d, []) # more"
proof -
  have tens: "d div 10 = 0 \<or> d div 10 = 1 \<or> d div 10 = 2 \<or> d div 10 = 3"
    using assms by arith
  have units: "d mod 10 < 10"
    by simp
  from tens show ?thesis
  proof (elim disjE)
    assume t: "d div 10 = 0"
    then have "d mod 10 = d"
      by simp
    then show ?thesis
      using assms units by (simp add: match_d_def t digit_in_digit_char digit_digit_char)
  next
    assume t: "d div 10 = 1"
    then have "d = 10 + d mod 10"
      by arith
    then show ?thesis
      using units by (simp add: match_d_def t digit_in_digit_char digit_digit_char)
  next
    assume t: "d div 10 = 2"
    then have "d = 20 + d mod 10"
      by arith
    then show ?thesis
      using units by (simp add: match_d_def t digit_in_digit_char digit_digit_char)
  next
    assume t: "d div 10 = 3"
    then have "d = 30 + d mod 10" "d mod 10 \<le> 1"
      using assms by arith+
    then show ?thesis
      using units by (simp add: match_d_def t digit_in_digit_char digit_digit_char)
  qed
qed

text \<open>Every calendar date, written as the date pickers write it, is parsed back.\<close>

lemma strptime_isoformat:
  assumes "valid_date t"
  shows "strptime (isoformat t) = Inr t"
proof -
  have y: "year t \<le> 9999" "1 \<le> year t" and m: "1 \<le> month t" "month t \<le> 12"
    and d: "1 \<le> day t" "day t \<le> days_in_month (year t) (month t)"
    using assms by (simp_all add: valid_date_def)
  have d31: "day t \<le> 31"
    using d(2) days_in_month_le [OF m] by (rule order_trans)
  let ?tail = "[CHR ''-'', digit_char (day t div 10), digit_char (day t mod 10)]"
  obtain more_m where mm: "match_m (digit_char (month t div 10) # digit_char (month t mod 10) # ?tail)
      = (month t, ?tail) # more_m"
    using match_m_two [OF m] by blast
  obtain more_d where dd: "match_d [digit_char (day t div 10), digit_char (day t mod 10)]
      = (day t, []) # more_d"
    using match_d_two [OF d(1) d31] by blast
  have yy: "match_Y (isoformat t) = [(year t, CHR ''-'' # digit_char (month t div 10) # digit_char (month t mod 10) # ?tail)]"
    unfolding isoformat_def by (rule match_Y_four [OF y(1)])
  have "\<exists>more. match_ymd (isoformat t) = ((year t, month t, day t), []) # more"
    unfolding match_ymd_def yy by (simp add: match_dash_def mm dd)
  then show ?thesis
    using y d assms by (auto simp: strptime_def valid_date_def)
qed

section \<open>Frames\<close>

lemma and_then_eq_Inr:
  "and_then m f = Inr r \<longleftrightarrow> (\<exists>v. m = Inr v \<and> f v = Inr r)"
  by (cases m) (simp_all add: and_then_def)


lemma wf_column_length:
  assumes "wf_frame fr" and "map_of (cols fr) n = Some xs"
  shows "length xs = nrows fr"
  using assms by (auto simp: wf_frame_def list_all_iff dest: map_of_SomeD)

lemma map_of_keyed: "map_of (map (\<lambda>n. (n, f n)) ns) n = (if n \<in> set ns then Some (f n) else None)"
  by (induction ns) auto




lemma getitem_concat:
  "getitem (concat_frames a b) n =
     (if n \<in> set (map fst (cols a)) \<or> n \<in> set (map fst (cols b))
      then Inr (column_or_missing a n @ column_or_missing b n) else Inl (KeyError n))"
proof -
  have "map_of (cols (concat_frames a b)) n =
      (if n \<in> set (map fst (cols a) @ filter (\<lambda>n. n \<notin> set (map fst (cols a))) (map fst (cols b)))
       then Some (column_or_missing a n @ column_or_missing b n) else None)"
    unfolding concat_frames_def by (simp only: frame.select_convs map_of_keyed)
  then show ?thesis
    by (auto simp: getitem_def)
qed


lemma column_or_missing_length:
  "wf_frame fr \<Longrightarrow> length (column_or_missing fr n) = nrows fr"
  by (auto simp: column_or_missing_def wf_column_length split: option.splits)



lemma concat_onto_nothing:
  "concat_frames \<lparr>nrows = 0, cols = []\<rparr>
       \<lparr>nrows = Suc 0, cols = [(''Date'', [x]), (''Age_Days'', [y]), (''Weight_kg'', [z])]\<rparr>
     = \<lparr>nrows = Suc 0, cols = [(''Date'', [x]), (''Age_Days'', [y]), (''Weight_kg'', [z])]\<rparr>"
  by (simp add: concat_frames_def column_or_missing_def)

lemma getitem_records:
  "getitem (DataFrame_records rows) n =
     (if n \<in> set (concat (map (map fst) rows)) then Inr (map (\<lambda>r. row_get r n) rows)
      else Inl (KeyError n))"
proof -
  have "map_of (cols (DataFrame_records rows)) n =
      (if n \<in> set (first_seen (concat (map (map fst) rows))) then Some (map (\<lambda>r. row_get r n) rows) else None)"
    unfolding DataFrame_records_def by (simp only: frame.select_convs map_of_keyed)
  then show ?thesis
    by (simp add: getitem_def first_seen_def)
qed

lemma getitem_setitem:
  "getitem (setitem fr k xs) n = (if n = k then Inr xs else getitem fr n)"
  by (simp add: getitem_def setitem_def update_conv')







lemma to_datetime_length: "to_datetime L xs = Inr ys \<Longrightarrow> length ys = length xs"
  by (induction xs arbitrary: ys) (auto split: sum.splits)

lemma to_datetime_is_datetime: "to_datetime L xs = Inr ys \<Longrightarrow> list_all is_datetime ys"
  by (induction xs arbitrary: ys)
     (auto simp: to_datetime_cell_def is_datetime_def split: sum.splits cell.splits option.splits)

lemma to_datetime_id: "list_all is_datetime xs \<Longrightarrow> to_datetime L xs = Inr xs"
  by (induction xs) (auto simp: to_datetime_cell_def is_datetime_def split: cell.splits)

lemma to_datetime_append:
  "to_datetime L (xs @ ys) =
     (case to_datetime L xs of
        Inl e \<Rightarrow> Inl e
      | Inr xs' \<Rightarrow> (case to_datetime L ys of Inl e \<Rightarrow> Inl e | Inr ys' \<Rightarrow> Inr (xs' @ ys')))"
  by (induction xs) (auto split: sum.splits)

lemma to_datetime_missing: "to_datetime L (replicate k Missing) = Inr (replicate k Missing)"
  by (induction k) (simp_all add: to_datetime_cell_def)

lemma wf_keyed:
  assumes "distinct ns" and "\<And>n. length (f n) = k"
  shows "wf_frame \<lparr>nrows = k, cols = map (\<lambda>n. (n, f n)) ns\<rparr>"
  using assms by (simp add: wf_frame_def comp_def list_all_iff)

lemma wf_concat:
  assumes "wf_frame a" and "wf_frame b"
  shows "wf_frame (concat_frames a b)"
  unfolding concat_frames_def
proof (rule wf_keyed)
  show "distinct (map fst (cols a) @ filter (\<lambda>n. n \<notin> set (map fst (cols a))) (map fst (cols b)))"
    using assms by (auto simp: wf_frame_def)
  show "length (column_or_missing a n @ column_or_missing b n) = nrows a + nrows b" for n
    using assms by (simp add: column_or_missing_length)
qed

lemma wf_records: "wf_frame (DataFrame_records rows)"
  unfolding DataFrame_records_def
  by (rule wf_keyed) (simp_all add: first_seen_def)

lemma update_members:
  "p \<in> set (AList.update n xs al) \<Longrightarrow> p = (n, xs) \<or> p \<in> set al"
  by (induction al) (auto split: if_splits)

lemma wf_setitem:
  assumes "wf_frame fr" and "length xs = nrows fr"
  shows "wf_frame (setitem fr n xs)"
  using assms
  by (auto simp: wf_frame_def setitem_def list_all_iff distinct_update dest!: update_members)

section \<open>The reference curves\<close>




section \<open>The chart\<close>

lemma fold_add_trace:
  "fold (\<lambda>kw. add_trace (f kw)) kws fig = fig\<lparr>fig_data := fig_data fig @ map f kws\<rparr>"
  by (induction kws arbitrary: fig) (simp_all add: add_trace_def)

text \<open>The chart as a value: the two bands, one line per percentile, then the records' trace.\<close>

lemma update_chart_eq:
  "update_chart rc fr =
     and_then (band rc ''95th'' ''5th'' ''rgba(200,200,200,0.3)'') (\<lambda>b1.
     and_then (band rc ''90th'' ''10th'' ''rgba(150,150,150,0.3)'') (\<lambda>b2.
       if is_empty fr
       then Inr \<lparr>fig_data = b1 # b2 # map (percentile_line rc) (percentiles rc),
                 fig_layout = Some chart_layout\<rparr>
       else and_then (growth_trace fr) (\<lambda>g.
              Inr \<lparr>fig_data = b1 # b2 # map (percentile_line rc) (percentiles rc) @ [g],
                   fig_layout = Some chart_layout\<rparr>)))"
  by (simp add: update_chart_def and_then_def add_trace_def fold_add_trace Let_def
           split: sum.splits)



lemma update_chart_succeeds:
  assumes ps: "percentiles rc = [(''5th'', p5), (''10th'', p10), (''50th'', p50), (''90th'', p90), (''95th'', p95)]"
    and "chartable fr"
  shows "\<exists>fig. update_chart rc fr = Inr fig"
  using assms(2)
  by (auto simp: chartable_def update_chart_eq band_def percentile_def ps and_then_def
        growth_trace_def getitem_def)

lemma band_Inr:
  assumes "band rc upper lower colour = Inr b"
  shows "\<exists>hi lo. percentile rc upper = Inr hi \<and> percentile rc lower = Inr lo \<and>
           tr_x b = days rc @ rev (days rc) \<and> tr_y b = hi @ rev lo \<and>
           tr_fill b = Some ''toself'' \<and> tr_fillcolor b = Some colour \<and>
           tr_hoverinfo b = Some ''skip'' \<and> tr_showlegend b = Some False \<and> tr_name b = None"
  using assms unfolding band_def and_then_eq_Inr by (auto simp: Scatter_def)

lemma update_chart_first_two:
  assumes "update_chart rc fr = Inr fig"
  shows "\<exists>b1 b2 rest. band rc ''95th'' ''5th'' ''rgba(200,200,200,0.3)'' = Inr b1 \<and>
           band rc ''90th'' ''10th'' ''rgba(150,150,150,0.3)'' = Inr b2 \<and>
           fig_data fig = b1 # b2 # rest"
  using assms unfolding update_chart_eq by (auto simp: and_then_eq_Inr split: if_splits)

section \<open>The branches of the handler\<close>



lemma update_add:
  assumes trig: "trigger_id ev = ''add-button''"
    and inp: "dob ev = Some d" "date ev = Some m" "weight ev = Some w"
    and d: "strptime d = Inr t0" and m: "strptime m = Inr t1"
  shows "update_data_and_chart L rc ev st =
     (let fr = concat_frames (df st)
                 \<lparr>nrows = 1,
                  cols = [(''Date'', [Timestamp t1]),
                          (''Age_Days'', [PyInt (toordinal t1 - toordinal t0)]),
                          (''Weight_kg'', [cell_of_number w])]\<rparr>;
          st' = st\<lparr>df := fr, blobs := (blobs st)(baby_growth_blob \<mapsto> to_csv L fr)\<rparr>
      in (st', render rc ''Record added successfully!'' st'))"
proof -
  have "add_inputs ev = Some (d, m, w)"
    using inp strptime_nonempty [OF d] strptime_nonempty [OF m] by (simp add: add_inputs_def)
  then show ?thesis
    using trig
    by (simp add: update_data_and_chart_def d m sub_days_strptime [OF m d] DataFrame_dict_def
          write_csv_to_blob_def Let_def)
qed


lemma update_save:
  assumes "trigger_id ev = ''save-button'' \<or> trigger_id ev = ''data-table''"
  shows "update_data_and_chart L rc ev st =
     (let fr = DataFrame_records (table_data ev) in
      case getitem fr ''Date'' of
        Inl e \<Rightarrow> (st\<lparr>df := fr\<rparr>, Inl e)
      | Inr xs \<Rightarrow>
          (case to_datetime L xs of
             Inl e \<Rightarrow> (st\<lparr>df := fr\<rparr>, Inl e)
           | Inr ys \<Rightarrow>
               (let st' = st\<lparr>df := setitem fr ''Date'' ys,
                              blobs := (blobs st)(baby_growth_blob \<mapsto> to_csv L (setitem fr ''Date'' ys))\<rparr>
                in (st', render rc ''Changes saved successfully!'' st'))))"
proof -
  have "trigger_id ev \<noteq> ''add-button''"
    using assms by auto
  then show ?thesis
    using assms
    by (simp add: update_data_and_chart_def write_csv_to_blob_def Let_def split: sum.splits)
qed

lemma update_save_empty:
  assumes trig: "trigger_id ev = ''save-button'' \<or> trigger_id ev = ''data-table''"
    and rows: "table_data ev = []"
  shows "update_data_and_chart L rc ev st = (st\<lparr>df := \<lparr>nrows = 0, cols = []\<rparr>\<rparr>, Inl (KeyError ''Date''))"
  by (simp add: update_save [OF trig] rows DataFrame_records_def first_seen_def getitem_def)


text \<open>What an event can do to the store: one of four things.\<close>

lemma update_cases:
  "df (fst (update_data_and_chart L rc ev st)) = df st
   \<or> (\<exists>t w a. df (fst (update_data_and_chart L rc ev st))
         = concat_frames (df st)
             \<lparr>nrows = 1, cols = [(''Date'', [Timestamp t]), (''Age_Days'', [PyInt a]),
                                 (''Weight_kg'', [cell_of_number w])]\<rparr>)
   \<or> (df (fst (update_data_and_chart L rc ev st)) = DataFrame_records (table_data ev)
        \<and> (\<forall>xs. getitem (DataFrame_records (table_data ev)) ''Date'' = Inr xs \<longrightarrow>
               (\<exists>e. to_datetime L xs = Inl e)))
   \<or> (\<exists>xs ys. getitem (DataFrame_records (table_data ev)) ''Date'' = Inr xs
        \<and> to_datetime L xs = Inr ys
        \<and> df (fst (update_data_and_chart L rc ev st)) = setitem (DataFrame_records (table_data ev)) ''Date'' ys)"
  by (auto simp: update_data_and_chart_def Let_def DataFrame_dict_def write_csv_to_blob_def
        split: option.splits sum.splits prod.splits)

section \<open>The stores the handler leaves behind\<close>

text \<open>Every event leaves a well-formed store whose Date column is settled.\<close>

lemma update_preserves_wf:
  assumes "wf_frame (df st)"
  shows "wf_frame (df (fst (update_data_and_chart L rc ev st)))"
proof -
  let ?st' = "fst (update_data_and_chart L rc ev st)"
  consider (same) "df ?st' = df st"
    | (add) t w a where "df ?st' = concat_frames (df st)
             \<lparr>nrows = 1, cols = [(''Date'', [Timestamp t]), (''Age_Days'', [PyInt a]),
                                 (''Weight_kg'', [cell_of_number w])]\<rparr>"
    | (raw) "df ?st' = DataFrame_records (table_data ev)"
    | (conv) xs ys where "getitem (DataFrame_records (table_data ev)) ''Date'' = Inr xs"
        "to_datetime L xs = Inr ys" "df ?st' = setitem (DataFrame_records (table_data ev)) ''Date'' ys"
    using update_cases [of L rc ev st] by blast
  then show ?thesis
  proof cases
    case same
    then show ?thesis using assms by simp
  next
    case add
    have "wf_frame \<lparr>nrows = 1, cols = [(''Date'', [Timestamp t]), (''Age_Days'', [PyInt a]),
                                 (''Weight_kg'', [cell_of_number w :: 'a cell])]\<rparr>"
      by (simp add: wf_frame_def)
    from wf_concat [OF assms this] show ?thesis
      by (simp only: add)
  next
    case raw
    then show ?thesis by (simp add: wf_records)
  next
    case conv
    have "length xs = length (table_data ev)"
      using conv(1) by (auto simp: getitem_records split: if_splits)
    then have "length ys = nrows (DataFrame_records (table_data ev))"
      using to_datetime_length [OF conv(2)] by (simp add: DataFrame_records_def)
    from wf_setitem [OF wf_records this] show ?thesis
      by (simp only: conv(3))
  qed
qed


lemma settled_after_conversion:
  assumes "to_datetime L xs = Inr ys"
  shows "date_settled L (setitem fr ''Date'' ys)"
  using to_datetime_id [OF to_datetime_is_datetime [OF assms], of L]
  by (simp add: date_settled_def getitem_setitem)

lemma settled_after_add:
  assumes "date_settled L fr"
  shows "date_settled L (concat_frames fr
            \<lparr>nrows = 1, cols = [(''Date'', [Timestamp t]), (''Age_Days'', [b]), (''Weight_kg'', [c])]\<rparr>)"
proof -
  let ?old = "column_or_missing fr ''Date''"
  have g: "getitem (concat_frames fr
            \<lparr>nrows = 1, cols = [(''Date'', [Timestamp t]), (''Age_Days'', [b]), (''Weight_kg'', [c])]\<rparr>)
          ''Date'' = Inr (?old @ [Timestamp t])"
    by (simp add: getitem_concat column_or_missing_def)
  have "to_datetime L ?old = Inr ?old \<or> (\<exists>e. to_datetime L ?old = Inl e)"
  proof (cases "map_of (cols fr) ''Date''")
    case None
    then show ?thesis
      by (simp add: column_or_missing_def to_datetime_missing)
  next
    case (Some xs)
    then show ?thesis
      using assms by (auto simp: date_settled_def getitem_def column_or_missing_def split: sum.splits)
  qed
  then show ?thesis
    unfolding date_settled_def g by (auto simp: to_datetime_append to_datetime_cell_def)
qed

lemma update_preserves_settled:
  assumes "date_settled L (df st)"
  shows "date_settled L (df (fst (update_data_and_chart L rc ev st)))"
proof -
  let ?st' = "fst (update_data_and_chart L rc ev st)"
  consider (same) "df ?st' = df st"
    | (add) t w a where "df ?st' = concat_frames (df st)
             \<lparr>nrows = 1, cols = [(''Date'', [Timestamp t]), (''Age_Days'', [PyInt a]),
                                 (''Weight_kg'', [cell_of_number w])]\<rparr>"
    | (raw) "df ?st' = DataFrame_records (table_data ev)"
        "\<forall>xs. getitem (DataFrame_records (table_data ev)) ''Date'' = Inr xs \<longrightarrow>
               (\<exists>e. to_datetime L xs = Inl e)"
    | (conv) xs ys where "getitem (DataFrame_records (table_data ev)) ''Date'' = Inr xs"
        "to_datetime L xs = Inr ys" "df ?st' = setitem (DataFrame_records (table_data ev)) ''Date'' ys"
    using update_cases [of L rc ev st] by blast
  then show ?thesis
  proof cases
    case same
    then show ?thesis using assms by simp
  next
    case add
    from settled_after_add [OF assms] show ?thesis
      by (simp only: add)
  next
    case raw
    then show ?thesis
      by (auto simp: date_settled_def split: sum.splits)
  next
    case conv
    from settled_after_conversion [OF conv(2)] show ?thesis
      by (simp only: conv(3))
  qed
qed

lemma load_df_settled: "date_settled L (load_df L bs)"
proof -
  have "date_settled L (DataFrame_columns [''Date'', ''Age_Days'', ''Weight_kg''])"
    by (simp add: date_settled_def getitem_def DataFrame_columns_def)
  then show ?thesis
    by (auto simp: load_df_def and_then_def settled_after_conversion split: sum.splits)
qed

section \<open>The examples\<close>


lemma example_chart:
  "\<exists>fig. update_chart example_curves (df example_state) = Inr fig"
  by (rule update_chart_succeeds [of example_curves])
     (simp_all add: example_curves_def chartable_def example_state_def)

lemma example_dates:
  "strptime ''2024-01-01'' = Inr (ymd 2024 1 1)" "strptime ''2024-01-15'' = Inr (ymd 2024 1 15)"
  by code_simp+

lemma example_age: "toordinal (ymd 2024 1 15) - toordinal (ymd 2024 1 1) = 14"
  by (simp add: toordinal_def ymd_def days_before_year_def days_before_month_def is_leap_def)









section \<open>The claims\<close>

subsection \<open>Adding a record\<close>





subsection \<open>Events that change nothing\<close>



subsection \<open>Replacing the store\<close>





text \<open>
  C9, as the code has it: a save or table-edited event with no row raises KeyError for
  'Date' after the store has become the frame with no row and no column, and before
  anything is written, so the blob keeps what it held.  An add that follows, with valid
  dates and a weight, starts again from nothing: the store is then the one new record
  under the three columns Date, Age_Days, Weight_kg, and that is what is written.
\<close>

theorem empty_table_raises:
  assumes trig: "trigger_id ev = ''save-button'' \<or> trigger_id ev = ''data-table''"
    and rows: "table_data ev = []"
  shows "snd (update_data_and_chart L rc ev st) = Inl (KeyError ''Date'')
       \<and> df (fst (update_data_and_chart L rc ev st)) = \<lparr>nrows = 0, cols = []\<rparr>
       \<and> blobs (fst (update_data_and_chart L rc ev st)) = blobs st
       \<and> (trigger_id ev' = ''add-button'' \<and> dob ev' = Some d \<and> date ev' = Some m \<and> weight ev' = Some w
            \<and> strptime d = Inr t0 \<and> strptime m = Inr t1 \<longrightarrow>
          df (fst (update_data_and_chart L rc ev' (fst (update_data_and_chart L rc ev st))))
            = \<lparr>nrows = 1,
               cols = [(''Date'', [Timestamp t1]),
                       (''Age_Days'', [PyInt (toordinal t1 - toordinal t0)]),
                       (''Weight_kg'', [cell_of_number w])]\<rparr>
          \<and> blobs (fst (update_data_and_chart L rc ev' (fst (update_data_and_chart L rc ev st))))
               baby_growth_blob
             = Some (to_csv L \<lparr>nrows = 1,
                               cols = [(''Date'', [Timestamp t1]),
                                       (''Age_Days'', [PyInt (toordinal t1 - toordinal t0)]),
                                       (''Weight_kg'', [cell_of_number w])]\<rparr>))"
proof -
  have first: "update_data_and_chart L rc ev st
      = (st\<lparr>df := \<lparr>nrows = 0, cols = []\<rparr>\<rparr>, Inl (KeyError ''Date''))"
    by (rule update_save_empty [OF trig rows])
  have "df (fst (update_data_and_chart L rc ev' (st\<lparr>df := \<lparr>nrows = 0, cols = []\<rparr>\<rparr>)))
            = \<lparr>nrows = 1,
               cols = [(''Date'', [Timestamp t1]),
                       (''Age_Days'', [PyInt (toordinal t1 - toordinal t0)]),
                       (''Weight_kg'', [cell_of_number w])]\<rparr>
        \<and> blobs (fst (update_data_and_chart L rc ev' (st\<lparr>df := \<lparr>nrows = 0, cols = []\<rparr>\<rparr>)))
               baby_growth_blob
             = Some (to_csv L \<lparr>nrows = 1,
                               cols = [(''Date'', [Timestamp t1]),
                                       (''Age_Days'', [PyInt (toordinal t1 - toordinal t0)]),
                                       (''Weight_kg'', [cell_of_number w])]\<rparr>)"
    if a: "trigger_id ev' = ''add-button''" "dob ev' = Some d" "date ev' = Some m" "weight ev' = Some w"
      "strptime d = Inr t0" "strptime m = Inr t1"
    by (simp add: update_add [OF a] concat_onto_nothing Let_def)
  then show ?thesis
    by (simp add: first)
qed

theorem empty_table_raises_witness:
  "trigger_id delete_all_event = ''data-table'' \<and> table_data delete_all_event = []
   \<and> snd (update_data_and_chart example_pandas example_curves delete_all_event example_state)
       = Inl (KeyError ''Date'')
   \<and> df (fst (update_data_and_chart example_pandas example_curves delete_all_event example_state))
       = \<lparr>nrows = 0, cols = []\<rparr>
   \<and> blobs (fst (update_data_and_chart example_pandas example_curves delete_all_event example_state))
       = blobs example_state
   \<and> df (fst (update_data_and_chart example_pandas example_curves add_event
            (fst (update_data_and_chart example_pandas example_curves delete_all_event example_state))))
       = \<lparr>nrows = 1, cols = [(''Date'', [Timestamp (ymd 2024 1 15)]), (''Age_Days'', [PyInt 14]),
                           (''Weight_kg'', [PyFloat 4.2])]\<rparr>"
proof -
  have t: "trigger_id delete_all_event = ''data-table''" and r: "table_data delete_all_event = []"
    by (simp_all add: trigger_id_def delete_all_event_def)
  then have t': "trigger_id delete_all_event = ''save-button'' \<or> trigger_id delete_all_event = ''data-table''"
    by simp
  have a: "trigger_id add_event = ''add-button'' \<and> dob add_event = Some ''2024-01-01''
      \<and> date add_event = Some ''2024-01-15'' \<and> weight add_event = Some (JFloat 4.2)
      \<and> strptime ''2024-01-01'' = Inr (ymd 2024 1 1) \<and> strptime ''2024-01-15'' = Inr (ymd 2024 1 15)"
    by (simp add: trigger_id_def add_event_def example_event_def example_dates)
  note A = empty_table_raises [OF t' r, of example_pandas example_curves example_state]
  have "df (fst (update_data_and_chart example_pandas example_curves add_event
            (fst (update_data_and_chart example_pandas example_curves delete_all_event example_state))))
       = \<lparr>nrows = 1, cols = [(''Date'', [Timestamp (ymd 2024 1 15)]),
                           (''Age_Days'', [PyInt (toordinal (ymd 2024 1 15) - toordinal (ymd 2024 1 1))]),
                           (''Weight_kg'', [cell_of_number (JFloat 4.2)])]\<rparr>"
    by (rule A [THEN conjunct2, THEN conjunct2, THEN conjunct2, THEN mp, OF a, THEN conjunct1])
  then have b: "df (fst (update_data_and_chart example_pandas example_curves add_event
            (fst (update_data_and_chart example_pandas example_curves delete_all_event example_state))))
       = \<lparr>nrows = 1, cols = [(''Date'', [Timestamp (ymd 2024 1 15)]), (''Age_Days'', [PyInt 14]),
                           (''Weight_kg'', [PyFloat 4.2])]\<rparr>"
    by (simp only: example_age cell_of_number_def number.case)
  show ?thesis
    using t r A [THEN conjunct1] A [THEN conjunct2, THEN conjunct1]
      A [THEN conjunct2, THEN conjunct2, THEN conjunct1] b
    by (intro conjI)
qed

text \<open>
  C9 as stated ends with: after the failed save the add branch no longer satisfies
  the persisted schema.  On the example, the add that follows the failed save leaves
  exactly the columns Date, Age_Days, Weight_kg, one complete record, and a blob with
  that header.
\<close>

theorem add_after_empty_table_counterexample:
  "\<not> (map fst (cols (df (fst (update_data_and_chart example_pandas example_curves add_event
          (fst (update_data_and_chart example_pandas example_curves delete_all_event example_state))))))
        \<noteq> [''Date'', ''Age_Days'', ''Weight_kg''])
   \<and> to_dict_records (df (fst (update_data_and_chart example_pandas example_curves add_event
          (fst (update_data_and_chart example_pandas example_curves delete_all_event example_state)))))
       = [[(''Date'', Timestamp (ymd 2024 1 15)), (''Age_Days'', PyInt 14), (''Weight_kg'', PyFloat 4.2)]]
   \<and> blobs (fst (update_data_and_chart example_pandas example_curves add_event
          (fst (update_data_and_chart example_pandas example_curves delete_all_event example_state))))
        baby_growth_blob = Some ''Date,Age_Days,Weight_kg''"
proof -
  have t: "trigger_id delete_all_event = ''save-button'' \<or> trigger_id delete_all_event = ''data-table''"
    and r: "table_data delete_all_event = []"
    by (simp_all add: trigger_id_def delete_all_event_def)
  have first: "fst (update_data_and_chart example_pandas example_curves delete_all_event example_state)
      = example_state\<lparr>df := \<lparr>nrows = 0, cols = []\<rparr>\<rparr>"
    by (simp add: update_save_empty [OF t r])
  have a: "trigger_id add_event = ''add-button''" "dob add_event = Some ''2024-01-01''"
      "date add_event = Some ''2024-01-15''" "weight add_event = Some (JFloat 4.2)"
    by (simp_all add: trigger_id_def add_event_def example_event_def)
  have second: "fst (update_data_and_chart example_pandas example_curves add_event
        (example_state\<lparr>df := \<lparr>nrows = 0, cols = []\<rparr>\<rparr>))
      = example_state
          \<lparr>df := \<lparr>nrows = 1, cols = [(''Date'', [Timestamp (ymd 2024 1 15)]), (''Age_Days'', [PyInt 14]),
                                    (''Weight_kg'', [PyFloat 4.2])]\<rparr>,
           blobs := (blobs example_state)(baby_growth_blob \<mapsto> ''Date,Age_Days,Weight_kg'')\<rparr>"
    unfolding update_add [OF a example_dates] example_age
    by (simp add: concat_onto_nothing Let_def cell_of_number_def example_pandas_def)
  show ?thesis
    unfolding first second by (simp add: to_dict_records_def)
qed

text \<open>
  C6 at the empty list of rows: the save raises KeyError, nothing is written, and a
  reload gives what was persisted before, not the empty table that was passed in.
\<close>

theorem delete_all_rows_not_saved:
  "update_data_and_chart L rc (ev\<lparr>prop_id := ''save-button.n_clicks'', table_data := []\<rparr>) st
     = (st\<lparr>df := \<lparr>nrows = 0, cols = []\<rparr>\<rparr>, Inl (KeyError ''Date''))
   \<and> load_df L (blobs (fst (update_data_and_chart L rc
        (ev\<lparr>prop_id := ''save-button.n_clicks'', table_data := []\<rparr>) st))) = load_df L (blobs st)"
proof -
  have "trigger_id (ev\<lparr>prop_id := ''save-button.n_clicks'', table_data := []\<rparr>) = ''save-button''"
    by (simp add: trigger_id_def)
  then show ?thesis
    by (simp add: update_save_empty)
qed

subsection \<open>The chart\<close>



text \<open>
  C5: in every chart the builder returns, the first trace is the band between the 95th
  and the 5th percentile: its x values are the age axis followed by the age axis
  reversed, its y values the 95th percentile values followed by the reversed 5th
  percentile values, filled 'toself' in rgba(200,200,200,0.3).  The second trace is built
  the same way from the 90th and 10th percentiles, in the darker rgba(150,150,150,0.3).
  Both have hoverinfo 'skip' and showlegend False.
\<close>

theorem band_traces:
  assumes "update_chart rc fr = Inr fig"
  shows "\<exists>p5 p10 p90 p95.
           percentile rc ''5th'' = Inr p5 \<and> percentile rc ''10th'' = Inr p10 \<and>
           percentile rc ''90th'' = Inr p90 \<and> percentile rc ''95th'' = Inr p95 \<and>
           2 \<le> length (fig_data fig) \<and>
           tr_x (fig_data fig ! 0) = days rc @ rev (days rc) \<and>
           tr_y (fig_data fig ! 0) = p95 @ rev p5 \<and>
           tr_fill (fig_data fig ! 0) = Some ''toself'' \<and>
           tr_fillcolor (fig_data fig ! 0) = Some ''rgba(200,200,200,0.3)'' \<and>
           tr_hoverinfo (fig_data fig ! 0) = Some ''skip'' \<and>
           tr_showlegend (fig_data fig ! 0) = Some False \<and>
           tr_x (fig_data fig ! 1) = days rc @ rev (days rc) \<and>
           tr_y (fig_data fig ! 1) = p90 @ rev p10 \<and>
           tr_fill (fig_data fig ! 1) = Some ''toself'' \<and>
           tr_fillcolor (fig_data fig ! 1) = Some ''rgba(150,150,150,0.3)'' \<and>
           tr_hoverinfo (fig_data fig ! 1) = Some ''skip'' \<and>
           tr_showlegend (fig_data fig ! 1) = Some False"
proof -
  obtain b1 b2 rest where
    b1: "band rc ''95th'' ''5th'' ''rgba(200,200,200,0.3)'' = Inr b1" and
    b2: "band rc ''90th'' ''10th'' ''rgba(150,150,150,0.3)'' = Inr b2" and
    d: "fig_data fig = b1 # b2 # rest"
    using update_chart_first_two [OF assms] by blast
  obtain p95 p5 where one: "percentile rc ''95th'' = Inr p95" "percentile rc ''5th'' = Inr p5"
    "tr_x b1 = days rc @ rev (days rc)" "tr_y b1 = p95 @ rev p5" "tr_fill b1 = Some ''toself''"
    "tr_fillcolor b1 = Some ''rgba(200,200,200,0.3)''" "tr_hoverinfo b1 = Some ''skip''"
    "tr_showlegend b1 = Some False"
    using band_Inr [OF b1] by blast
  obtain p90 p10 where two: "percentile rc ''90th'' = Inr p90" "percentile rc ''10th'' = Inr p10"
    "tr_x b2 = days rc @ rev (days rc)" "tr_y b2 = p90 @ rev p10" "tr_fill b2 = Some ''toself''"
    "tr_fillcolor b2 = Some ''rgba(150,150,150,0.3)''" "tr_hoverinfo b2 = Some ''skip''"
    "tr_showlegend b2 = Some False"
    using band_Inr [OF b2] by blast
  show ?thesis
    by (rule exI [of _ p5], rule exI [of _ p10], rule exI [of _ p90], rule exI [of _ p95])
       (simp add: d one two)
qed

theorem band_traces_witness:
  "\<exists>fig. update_chart example_curves (df example_state) = Inr fig \<and>
     tr_x (fig_data fig ! 0) = [PyInt 0, PyInt 7, PyInt 14, PyInt 14, PyInt 7, PyInt 0] \<and>
     tr_y (fig_data fig ! 0) = [PyFloat 4.0, PyFloat 4.1, Missing, PyFloat 3.1, PyFloat 2.8, PyFloat 2.5] \<and>
     tr_y (fig_data fig ! 1) =
       [PyFloat 3.9, PyFloat 3.9, PyFloat 4.2, PyFloat 3.2, PyFloat 2.9, PyFloat 2.7] \<and>
     tr_showlegend (fig_data fig ! 0) = Some False \<and> tr_hoverinfo (fig_data fig ! 1) = Some ''skip''"
proof -
  obtain fig where f: "update_chart example_curves (df example_state) = Inr fig"
    using example_chart by blast
  have p: "percentile example_curves ''5th'' = Inr [PyFloat 2.5, PyFloat 2.8, PyFloat 3.1]"
    "percentile example_curves ''10th'' = Inr [PyFloat 2.7, PyFloat 2.9, PyFloat 3.2]"
    "percentile example_curves ''90th'' = Inr [PyFloat 3.9, PyFloat 3.9, PyFloat 4.2]"
    "percentile example_curves ''95th'' = Inr [PyFloat 4.0, PyFloat 4.1, Missing]"
    "days example_curves = [PyInt 0, PyInt 7, PyInt 14]"
    by (simp_all add: percentile_def example_curves_def)
  from band_traces [OF f] show ?thesis
    unfolding p by (intro exI [of _ fig]) (auto simp: f)
qed

subsection \<open>The reference curve loader\<close>




end
